theory Spec2Isabelle
  imports Main "HOL-Library.AList"
begin

section \<open>Python values\<close>

text \<open>
  The inventory system is dynamically typed: \<open>add_item\<close> and \<open>remove_item\<close> test their
  arguments with \<open>isinstance\<close>, and the stock dictionary comes from \<open>json.load\<close>, so a
  stored quantity can be any JSON value. The values modelled are \<open>None\<close>, booleans,
  unbounded integers, strings, lists and string-keyed dictionaries. Floating-point
  numbers are left out.
\<close>

datatype pyval =
    PNone
  | PBool bool
  | PInt int
  | PStr string
  | PList "pyval list"
  | PDict "(string \<times> pyval) list"

datatype pyexn = TypeError | KeyError | FileNotFoundError | JSONDecodeError

text \<open>\<open>except IOError\<close> catches \<open>OSError\<close> and its subclasses, FileNotFoundError among them.\<close>

fun is_IOError :: "pyexn \<Rightarrow> bool" where
  "is_IOError FileNotFoundError = True"
| "is_IOError _ = False"

text \<open>\<open>isinstance(v, str)\<close>, the truth value of \<open>v\<close> (what \<open>not v\<close> negates), and the text of a string.\<close>

fun isinstance_str :: "pyval \<Rightarrow> bool" where
  "isinstance_str (PStr s) = True"
| "isinstance_str _ = False"

fun truthy :: "pyval \<Rightarrow> bool" where
  "truthy PNone = False"
| "truthy (PBool b) = b"
| "truthy (PInt n) = (n \<noteq> 0)"
| "truthy (PStr s) = (s \<noteq> [])"
| "truthy (PList vs) = (vs \<noteq> [])"
| "truthy (PDict kvs) = (kvs \<noteq> [])"

fun str_value :: "pyval \<Rightarrow> string" where
  "str_value (PStr s) = s"
| "str_value _ = []"

text \<open>
  \<open>isinstance(v, int)\<close> holds for integers and for booleans (\<open>bool\<close> is a subclass of
  \<open>int\<close>); in arithmetic and comparisons \<open>True\<close> counts as 1 and \<open>False\<close> as 0.
\<close>

fun int_value :: "pyval \<Rightarrow> int option" where
  "int_value (PInt n) = Some n"
| "int_value (PBool b) = Some (if b then 1 else 0)"
| "int_value _ = None"

definition isinstance_int :: "pyval \<Rightarrow> bool" where
  "isinstance_int v = (int_value v \<noteq> None)"

text \<open>\<open>a + b\<close>: numbers add, strings and lists concatenate, anything else is a TypeError.\<close>

fun py_add :: "pyval \<Rightarrow> pyval \<Rightarrow> pyexn + pyval" where
  "py_add (PStr a) (PStr b) = Inr (PStr (a @ b))"
| "py_add (PList a) (PList b) = Inr (PList (a @ b))"
| "py_add a b =
     (case (int_value a, int_value b) of
        (Some x, Some y) \<Rightarrow> Inr (PInt (x + y))
      | _ \<Rightarrow> Inl TypeError)"

text \<open>\<open>a - b\<close>: defined on numbers only.\<close>

definition py_sub :: "pyval \<Rightarrow> pyval \<Rightarrow> pyexn + pyval" where
  "py_sub a b =
     (case (int_value a, int_value b) of
        (Some x, Some y) \<Rightarrow> Inr (PInt (x - y))
      | _ \<Rightarrow> Inl TypeError)"

text \<open>
  \<open>v <= n\<close> and \<open>v < n\<close> for an integer \<open>n\<close>: a number is compared, every other value
  (\<open>None\<close>, a string, a list, a dictionary) raises TypeError.
\<close>

definition py_le_int :: "pyval \<Rightarrow> int \<Rightarrow> pyexn + bool" where
  "py_le_int v n = (case int_value v of Some x \<Rightarrow> Inr (x \<le> n) | None \<Rightarrow> Inl TypeError)"

definition py_lt_int :: "pyval \<Rightarrow> int \<Rightarrow> pyexn + bool" where
  "py_lt_int v n = (case int_value v of Some x \<Rightarrow> Inr (x < n) | None \<Rightarrow> Inl TypeError)"

text \<open>\<open>str(n)\<close> for an integer, as the f-string of \<open>add_item\<close> renders the quantity.\<close>

definition digit_char :: "nat \<Rightarrow> char" where
  "digit_char d = char_of (48 + d)"

function str_nat :: "nat \<Rightarrow> string" where
  "str_nat n = (if n < 10 then [digit_char n] else str_nat (n div 10) @ [digit_char (n mod 10)])"
  by pat_completeness auto
termination
  by (relation "measure id") auto

definition str_int :: "int \<Rightarrow> string" where
  "str_int i = (if i < 0 then CHR ''-'' # str_nat (nat (- i)) else str_nat (nat i))"

fun str_qty :: "pyval \<Rightarrow> string" where
  "str_qty (PInt n) = str_int n"
| "str_qty (PBool b) = (if b then ''True'' else ''False'')"
| "str_qty _ = []"

section \<open>The stock dictionary\<close>

text \<open>
  A Python \<open>dict\<close> keeps its keys in insertion order, and \<open>check_low_items\<close> returns the
  items in that order, so the stock is an association list. Its keys are strings: the
  dictionary is a JSON object or starts empty, and \<open>add_item\<close> stores under string keys
  only. Assigning to a key that is present keeps its position, a new key goes to the end
  (\<open>AList.update\<close>); \<open>del\<close> removes the entry (\<open>AList.delete\<close>).
\<close>

type_synonym stock = "(string \<times> pyval) list"

text \<open>\<open>d.get(k, dflt)\<close>, \<open>d[k]\<close>, \<open>d[k] = v\<close> and \<open>del d[k]\<close> for a string \<open>k\<close>.\<close>

definition dict_get :: "stock \<Rightarrow> string \<Rightarrow> pyval \<Rightarrow> pyval" where
  "dict_get d k dflt = (case map_of d k of None \<Rightarrow> dflt | Some v \<Rightarrow> v)"

definition dict_getitem :: "stock \<Rightarrow> string \<Rightarrow> pyexn + pyval" where
  "dict_getitem d k = (case map_of d k of None \<Rightarrow> Inl KeyError | Some v \<Rightarrow> Inr v)"

definition dict_setitem :: "stock \<Rightarrow> string \<Rightarrow> pyval \<Rightarrow> stock" where
  "dict_setitem d k v = AList.update k v d"

definition dict_delitem :: "stock \<Rightarrow> string \<Rightarrow> pyexn + stock" where
  "dict_delitem d k = (case map_of d k of None \<Rightarrow> Inl KeyError | Some v \<Rightarrow> Inr (AList.delete k d))"

definition keys :: "stock \<Rightarrow> string list" where
  "keys d = map fst d"

section \<open>Logging\<close>

text \<open>
  A record sent to the \<open>logging\<close> module: its level, the format string and the
  arguments, as the source passes them.
\<close>

datatype level = INFO | WARNING | ERROR

type_synonym notice = "level \<times> string \<times> pyval list"

definition invalid_item_notice :: "pyval \<Rightarrow> notice" where
  "invalid_item_notice item =
     (WARNING, ''Invalid item name: %s. Must be a non-empty string.'', [item])"

definition invalid_qty_notice :: "pyval \<Rightarrow> pyval \<Rightarrow> notice" where
  "invalid_qty_notice item qty =
     (WARNING, ''Invalid quantity for %s: %s. Must be an integer.'', [item, qty])"

section \<open>The operations\<close>

text \<open>
  What a call leaves behind: the exception that reaches the caller, if any, the stock
  dictionary after the call (it is mutated in place), and the records logged.
\<close>

record outcome =
  raised :: "pyexn option"
  stock_after :: stock
  emitted :: "notice list"

text \<open>\<open>add_item\<close> also appends to the caller's list \<open>logs\<close>, when one is passed.\<close>

record add_outcome = outcome +
  logs_after :: "string list option"

text \<open>
  \<open>add_item(stock_data, item, qty, logs)\<close>. \<open>now\<close> is the text of \<open>datetime.now()\<close> at
  the call. With \<open>logs = None\<close> the message goes to a fresh list that is dropped. The
  addition is outside any \<open>try\<close>: its TypeError leaves the function.
\<close>

definition add_item ::
  "stock \<Rightarrow> pyval \<Rightarrow> pyval \<Rightarrow> string list option \<Rightarrow> string \<Rightarrow> add_outcome" where
  "add_item stock_data item qty logs now =
     (if \<not> isinstance_str item \<or> \<not> truthy item then
        \<lparr>raised = None, stock_after = stock_data,
         emitted = [invalid_item_notice item], logs_after = logs\<rparr>
      else if \<not> isinstance_int qty then
        \<lparr>raised = None, stock_after = stock_data,
         emitted = [invalid_qty_notice item qty], logs_after = logs\<rparr>
      else
        (case py_add (dict_get stock_data (str_value item) (PInt 0)) qty of
           Inl e \<Rightarrow>
             \<lparr>raised = Some e, stock_after = stock_data, emitted = [], logs_after = logs\<rparr>
         | Inr v \<Rightarrow>
             let log_message = now @ '': Added '' @ str_qty qty @ '' of '' @ str_value item
             in \<lparr>raised = None, stock_after = dict_setitem stock_data (str_value item) v,
                 emitted = [(INFO, log_message, [])],
                 logs_after = map_option (\<lambda>l. l @ [log_message]) logs\<rparr>))"

text \<open>
  The body of the \<open>try\<close> in \<open>remove_item\<close>: \<open>stock_data[item] -= qty\<close> reads the entry
  (KeyError when absent), subtracts (TypeError when the stored value is not a number)
  and stores the difference; then the entry is read back, and deleted when it is
  \<open><= 0\<close>. An exception leaves the body with the stock as it is at that point.
\<close>

definition remove_item_try :: "stock \<Rightarrow> pyval \<Rightarrow> pyval \<Rightarrow> outcome" where
  "remove_item_try stock_data item qty =
     (let name = str_value item in
      case dict_getitem stock_data name of
        Inl e \<Rightarrow> \<lparr>raised = Some e, stock_after = stock_data, emitted = []\<rparr>
      | Inr old \<Rightarrow>
          (case py_sub old qty of
             Inl e \<Rightarrow> \<lparr>raised = Some e, stock_after = stock_data, emitted = []\<rparr>
           | Inr new \<Rightarrow>
               let stored = dict_setitem stock_data name new in
               (case dict_getitem stored name of
                  Inl e \<Rightarrow> \<lparr>raised = Some e, stock_after = stored, emitted = []\<rparr>
                | Inr current \<Rightarrow>
                    (case py_le_int current 0 of
                       Inl e \<Rightarrow> \<lparr>raised = Some e, stock_after = stored, emitted = []\<rparr>
                     | Inr False \<Rightarrow> \<lparr>raised = None, stock_after = stored, emitted = []\<rparr>
                     | Inr True \<Rightarrow>
                         (case dict_delitem stored name of
                            Inl e \<Rightarrow> \<lparr>raised = Some e, stock_after = stored, emitted = []\<rparr>
                          | Inr deleted \<Rightarrow>
                              \<lparr>raised = None, stock_after = deleted,
                               emitted = [(INFO, ''Removed %s from stock.'', [item])]\<rparr>)))))"

text \<open>The two \<open>except\<close> clauses: KeyError and TypeError are logged, nothing else is caught.\<close>

definition remove_item_except :: "pyval \<Rightarrow> pyval \<Rightarrow> outcome \<Rightarrow> outcome" where
  "remove_item_except item qty r =
     (case raised r of
        Some KeyError \<Rightarrow>
          r\<lparr>raised := None,
            emitted := emitted r @
              [(WARNING, ''Attempted to remove non-existent item: %s'', [item])]\<rparr>
      | Some TypeError \<Rightarrow>
          r\<lparr>raised := None,
            emitted := emitted r @
              [(ERROR, ''Type error during removal of item %s with quantity %s.'',
                [item, qty])]\<rparr>
      | _ \<Rightarrow> r)"

text \<open>\<open>remove_item(stock_data, item, qty)\<close>: the two guards of \<open>add_item\<close>, then the \<open>try\<close>.\<close>

definition remove_item :: "stock \<Rightarrow> pyval \<Rightarrow> pyval \<Rightarrow> outcome" where
  "remove_item stock_data item qty =
     (if \<not> isinstance_str item \<or> \<not> truthy item then
        \<lparr>raised = None, stock_after = stock_data, emitted = [invalid_item_notice item]\<rparr>
      else if \<not> isinstance_int qty then
        \<lparr>raised = None, stock_after = stock_data, emitted = [invalid_qty_notice item qty]\<rparr>
      else remove_item_except item qty (remove_item_try stock_data item qty))"

text \<open>
  \<open>get_qty(stock_data, item)\<close> is \<open>stock_data.get(item, 0)\<close>: the key is hashed first,
  and a list or a dictionary is unhashable (TypeError). A hashable key that is not a
  string equals none of the string keys, so the default is returned.
\<close>

definition get_qty :: "stock \<Rightarrow> pyval \<Rightarrow> pyexn + pyval" where
  "get_qty stock_data item =
     (case item of
        PStr name \<Rightarrow> Inr (dict_get stock_data name (PInt 0))
      | PList _ \<Rightarrow> Inl TypeError
      | PDict _ \<Rightarrow> Inl TypeError
      | _ \<Rightarrow> Inr (PInt 0))"

text \<open>
  \<open>check_low_items(stock_data, threshold)\<close>: the list comprehension walks the entries
  in order and compares each quantity with the threshold; the first comparison that
  raises ends the call. The threshold is an integer, 5 when the caller gives none.
\<close>

fun check_low_items :: "stock \<Rightarrow> int \<Rightarrow> pyexn + string list" where
  "check_low_items [] threshold = Inr []"
| "check_low_items ((item, qty) # rest) threshold =
     (case py_lt_int qty threshold of
        Inl e \<Rightarrow> Inl e
      | Inr low \<Rightarrow>
          (case check_low_items rest threshold of
             Inl e \<Rightarrow> Inl e
           | Inr items \<Rightarrow> Inr (if low then item # items else items)))"

definition check_low_items_default :: "stock \<Rightarrow> pyexn + string list" where
  "check_low_items_default stock_data = check_low_items stock_data 5"

text \<open>
  The four operations on the stock as calls, and the stock dictionary a call leaves
  behind. The two queries only read the dictionary.
\<close>

datatype call =
    Add_item pyval pyval "string list option" string
  | Remove_item pyval pyval
  | Get_qty pyval
  | Check_low_items int

fun run :: "stock \<Rightarrow> call \<Rightarrow> stock" where
  "run d (Add_item item qty logs now) = stock_after (add_item d item qty logs now)"
| "run d (Remove_item item qty) = stock_after (remove_item d item qty)"
| "run d (Get_qty item) = d"
| "run d (Check_low_items threshold) = d"

text \<open>Successive calls of \<open>add_item\<close> for one item, then \<open>get_qty\<close>; an exception ends the run.\<close>

fun add_each :: "stock \<Rightarrow> pyval \<Rightarrow> pyval list \<Rightarrow> string \<Rightarrow> pyexn + stock" where
  "add_each d item [] now = Inr d"
| "add_each d item (qty # qtys) now =
     (let r = add_item d item qty None now
      in case raised r of
           Some e \<Rightarrow> Inl e
         | None \<Rightarrow> add_each (stock_after r) item qtys now)"

definition add_each_then_get :: "stock \<Rightarrow> pyval \<Rightarrow> pyval list \<Rightarrow> string \<Rightarrow> pyexn + pyval" where
  "add_each_then_get d item qtys now =
     (case add_each d item qtys now of
        Inl e \<Rightarrow> Inl e
      | Inr d' \<Rightarrow> get_qty d' item)"

section \<open>Persistence\<close>

text \<open>
  \<open>load_data\<close> and \<open>save_data\<close> go through \<open>open\<close> and the \<open>json\<close> module. The text of a
  file is abstracted to the JSON document it holds: \<open>json.dump\<close> of a value writes that
  document, \<open>json.load\<close> returns it, and text that is not JSON makes \<open>json.load\<close> raise
  JSONDecodeError. A path with no entry is a file that does not exist yet and can be
  created. \<open>Unreachable\<close> is a path on which \<open>open\<close> fails in both modes with
  FileNotFoundError, as a path inside a directory that does not exist.
\<close>

datatype node = Document pyval | Garbage | Unreachable

type_synonym filesystem = "string \<rightharpoonup> node"

definition open_read :: "filesystem \<Rightarrow> string \<Rightarrow> pyexn + node" where
  "open_read fs file =
     (case fs file of
        None \<Rightarrow> Inl FileNotFoundError
      | Some Unreachable \<Rightarrow> Inl FileNotFoundError
      | Some content \<Rightarrow> Inr content)"

definition open_write :: "filesystem \<Rightarrow> string \<Rightarrow> pyexn + unit" where
  "open_write fs file =
     (case fs file of
        Some Unreachable \<Rightarrow> Inl FileNotFoundError
      | _ \<Rightarrow> Inr ())"

definition json_load :: "node \<Rightarrow> pyexn + pyval" where
  "json_load content = (case content of Document data \<Rightarrow> Inr data | _ \<Rightarrow> Inl JSONDecodeError)"

record load_outcome =
  loaded :: "pyexn + pyval"
  load_emitted :: "notice list"

definition load_data :: "filesystem \<Rightarrow> string \<Rightarrow> load_outcome" where
  "load_data fs file =
     (case (case open_read fs file of Inl e \<Rightarrow> Inl e | Inr f \<Rightarrow> json_load f) of
        Inr data \<Rightarrow> \<lparr>loaded = Inr data, load_emitted = []\<rparr>
      | Inl FileNotFoundError \<Rightarrow>
          \<lparr>loaded = Inr (PDict []),
           load_emitted =
             [(WARNING, ''Inventory file not found. Starting with empty inventory.'', [])]\<rparr>
      | Inl JSONDecodeError \<Rightarrow>
          \<lparr>loaded = Inr (PDict []),
           load_emitted =
             [(ERROR, ''Error decoding JSON from %s. Starting with empty inventory.'',
               [PStr file])]\<rparr>
      | Inl e \<Rightarrow> \<lparr>loaded = Inl e, load_emitted = []\<rparr>)"

record save_outcome =
  save_raised :: "pyexn option"
  files_after :: filesystem
  save_emitted :: "notice list"

text \<open>The second argument of the error record, the text of the exception, is left out.\<close>

definition save_data :: "filesystem \<Rightarrow> stock \<Rightarrow> string \<Rightarrow> save_outcome" where
  "save_data fs stock_data file =
     (case open_write fs file of
        Inr f \<Rightarrow>
          \<lparr>save_raised = None, files_after = fs(file \<mapsto> Document (PDict stock_data)),
           save_emitted = [(INFO, ''Inventory data saved to %s'', [PStr file])]\<rparr>
      | Inl e \<Rightarrow>
          if is_IOError e then
            \<lparr>save_raised = None, files_after = fs,
             save_emitted = [(ERROR, ''Could not save data to %s: %s'', [PStr file])]\<rparr>
          else \<lparr>save_raised = Some e, files_after = fs, save_emitted = []\<rparr>)"

definition save_then_load :: "filesystem \<Rightarrow> stock \<Rightarrow> string \<Rightarrow> pyexn + pyval" where
  "save_then_load fs stock_data file =
     loaded (load_data (files_after (save_data fs stock_data file)) file)"

section \<open>The data model\<close>

text \<open>The invariant of the inventory: every quantity stored is an integer above zero.\<close>

fun positive_qty :: "pyval \<Rightarrow> bool" where
  "positive_qty (PInt n) = (0 < n)"
| "positive_qty _ = False"

definition positive_quantities :: "stock \<Rightarrow> bool" where
  "positive_quantities d = list_all positive_qty (map snd d)"

text \<open>An inventory as the data model has it: item names with integer quantities.\<close>

definition inventory_of :: "(string \<times> int) list \<Rightarrow> stock" where
  "inventory_of xs = map (apsnd PInt) xs"

text \<open>The keys \<open>dict.get\<close> accepts: lists and dictionaries are unhashable.\<close>

fun hashable :: "pyval \<Rightarrow> bool" where
  "hashable (PList _) = False"
| "hashable (PDict _) = False"
| "hashable _ = True"

text \<open>The items \<open>add_item\<close> and \<open>remove_item\<close> accept: non-empty strings.\<close>

definition valid_item :: "pyval \<Rightarrow> bool" where
  "valid_item item = (isinstance_str item \<and> truthy item)"

text \<open>
  When \<open>add_item\<close> leaves a quantity above zero for the item: the arguments are
  refused, or the quantity present (0 when the item is absent) plus the one added is
  above zero.
\<close>

definition add_leaves_positive :: "stock \<Rightarrow> pyval \<Rightarrow> pyval \<Rightarrow> bool" where
  "add_leaves_positive d item qty =
     (case (item, int_value qty) of
        (PStr name, Some q) \<Rightarrow>
          name = [] \<or>
          (case int_value (dict_get d name (PInt 0)) of
             Some a \<Rightarrow> 0 < a + q
           | None \<Rightarrow> True)
      | _ \<Rightarrow> True)"

section \<open>Arithmetic on stored values\<close>

lemma py_add_ints:
  "int_value a = Some x \<Longrightarrow> int_value b = Some y \<Longrightarrow> py_add a b = Inr (PInt (x + y))"
  by (cases a; cases b) auto

lemma py_add_not_int:
  "int_value a = None \<Longrightarrow> int_value b = Some y \<Longrightarrow> py_add a b = Inl TypeError"
  by (cases a; cases b) auto

lemma valid_item_iff: "valid_item item \<longleftrightarrow> (\<exists>name. item = PStr name \<and> name \<noteq> [])"
  by (cases item) (auto simp: valid_item_def)

section \<open>What each mutation stores\<close>

lemma add_item_valid:
  assumes "name \<noteq> []" "int_value qty = Some q"
    and "int_value (dict_get d name (PInt 0)) = Some a"
  shows "stock_after (add_item d (PStr name) qty logs now) = AList.update name (PInt (a + q)) d"
    and "raised (add_item d (PStr name) qty logs now) = None"
  using assms
  by (simp_all add: add_item_def isinstance_int_def py_add_ints dict_setitem_def Let_def)

lemma add_item_not_number:
  assumes "name \<noteq> []" "int_value qty = Some q"
    and "int_value (dict_get d name (PInt 0)) = None"
  shows "stock_after (add_item d (PStr name) qty logs now) = d"
    and "raised (add_item d (PStr name) qty logs now) = Some TypeError"
  using assms
  by (simp_all add: add_item_def isinstance_int_def py_add_not_int)

lemma add_item_ignored:
  "\<not> valid_item item \<or> \<not> isinstance_int qty \<Longrightarrow>
   stock_after (add_item d item qty logs now) = d"
  by (auto simp: add_item_def valid_item_def)

lemma remove_item_ignored:
  "\<not> valid_item item \<or> \<not> isinstance_int qty \<Longrightarrow>
   stock_after (remove_item d item qty) = d"
  by (auto simp: remove_item_def valid_item_def)

lemma remove_item_try_absent:
  "map_of d name = None \<Longrightarrow>
   remove_item_try d (PStr name) qty = \<lparr>raised = Some KeyError, stock_after = d, emitted = []\<rparr>"
  by (simp add: remove_item_try_def dict_getitem_def)

lemma remove_item_try_not_number:
  "map_of d name = Some old \<Longrightarrow> int_value old = None \<Longrightarrow>
   remove_item_try d (PStr name) qty = \<lparr>raised = Some TypeError, stock_after = d, emitted = []\<rparr>"
  by (simp add: remove_item_try_def dict_getitem_def py_sub_def)

lemma remove_item_try_present:
  assumes "int_value qty = Some q" "map_of d name = Some old" "int_value old = Some a"
  shows "remove_item_try d (PStr name) qty =
           (if a - q \<le> 0
            then \<lparr>raised = None, stock_after = AList.delete name d,
                  emitted = [(INFO, ''Removed %s from stock.'', [PStr name])]\<rparr>
            else \<lparr>raised = None, stock_after = AList.update name (PInt (a - q)) d,
                  emitted = []\<rparr>)"
  using assms
  by (simp add: remove_item_try_def dict_getitem_def py_sub_def dict_setitem_def
      AList.update_conv' py_le_int_def dict_delitem_def AList.delete_update_same Let_def)

lemma remove_item_absent:
  "map_of d name = None \<Longrightarrow> stock_after (remove_item d (PStr name) qty) = d"
  by (simp add: remove_item_def remove_item_try_absent remove_item_except_def)

lemma remove_item_present:
  assumes "name \<noteq> []" "int_value qty = Some q"
    and "map_of d name = Some old" "int_value old = Some a"
  shows "stock_after (remove_item d (PStr name) qty) =
           (if a - q \<le> 0 then AList.delete name d else AList.update name (PInt (a - q)) d)"
  using assms
  by (simp add: remove_item_def isinstance_int_def remove_item_try_present[OF assms(2-4)]
      remove_item_except_def)

lemma remove_item_not_number:
  assumes "map_of d name = Some old" "int_value old = None"
  shows "stock_after (remove_item d (PStr name) qty) = d"
  using assms
  by (simp add: remove_item_def remove_item_try_not_number remove_item_except_def)

text \<open>
  The body of the \<open>try\<close> raises nothing but KeyError and TypeError, so \<open>remove_item\<close>
  never lets an exception through.
\<close>

lemma remove_item_try_raises:
  "raised (remove_item_try d item qty) \<in> {None, Some KeyError, Some TypeError}"
  by (auto simp: remove_item_try_def dict_getitem_def py_sub_def py_le_int_def
      dict_delitem_def Let_def split: sum.splits bool.splits option.splits)

lemma remove_item_never_raises: "raised (remove_item d item qty) = None"
  using remove_item_try_raises[of d item qty]
  by (auto simp: remove_item_def remove_item_except_def)

text \<open>
  Every way \<open>remove_item\<close> can end: the stock is as before, or the entry of the item,
  which was present, is deleted or overwritten.
\<close>

lemma remove_item_cases:
  "stock_after (remove_item d item qty) = d
   \<or> (\<exists>name old. item = PStr name \<and> map_of d name = Some old
        \<and> (stock_after (remove_item d item qty) = AList.delete name d
           \<or> (\<exists>v. stock_after (remove_item d item qty) = AList.update name v d)))"
proof (cases "valid_item item \<and> isinstance_int qty")
  case False
  then show ?thesis by (simp add: remove_item_ignored)
next
  case True
  then obtain name q where item: "item = PStr name" "name \<noteq> []" and q: "int_value qty = Some q"
    by (auto simp: isinstance_int_def valid_item_iff)
  show ?thesis
  proof (cases "map_of d name")
    case None
    then show ?thesis by (simp add: item remove_item_absent)
  next
    case (Some old)
    show ?thesis
    proof (cases "int_value old")
      case None
      with Some show ?thesis by (simp add: item remove_item_not_number)
    next
      case a: (Some a)
      from remove_item_present[OF item(2) q Some a] Some show ?thesis
        by (auto simp: item)
    qed
  qed
qed

section \<open>Well-formed dictionaries\<close>

text \<open>A dictionary holds each key once; the mutations keep it so.\<close>

lemma add_item_distinct:
  "distinct (keys d) \<Longrightarrow> distinct (keys (stock_after (add_item d item qty logs now)))"
  by (auto simp: add_item_def keys_def dict_setitem_def Let_def AList.distinct_update
      split: sum.splits)

lemma remove_item_distinct:
  "distinct (keys d) \<Longrightarrow> distinct (keys (stock_after (remove_item d item qty)))"
  using remove_item_cases[of d item qty]
  by (auto simp: keys_def AList.distinct_update AList.distinct_delete)

section \<open>The invariant under the mutations\<close>

lemma positive_qty_int: "positive_qty v \<Longrightarrow> \<exists>n. v = PInt n \<and> 0 < n"
  by (cases v) auto

lemma positive_lookup:
  "positive_quantities d \<Longrightarrow> map_of d k = Some v \<Longrightarrow> positive_qty v"
  by (induction d) (auto simp: positive_quantities_def split: if_splits)

lemma positive_update:
  "positive_quantities d \<Longrightarrow> positive_quantities (AList.update k v d) = positive_qty v"
  by (induction d) (auto simp: positive_quantities_def)

lemma positive_delete:
  "positive_quantities d \<Longrightarrow> positive_quantities (AList.delete k d)"
  by (induction d) (auto simp: positive_quantities_def)

lemma remove_keeps_positive:
  assumes "positive_quantities d"
  shows "positive_quantities (stock_after (remove_item d item qty))"
proof (cases "valid_item item \<and> isinstance_int qty")
  case False
  then show ?thesis using assms by (simp add: remove_item_ignored)
next
  case True
  then obtain name q where item: "item = PStr name" "name \<noteq> []" and q: "int_value qty = Some q"
    by (auto simp: isinstance_int_def valid_item_iff)
  show ?thesis
  proof (cases "map_of d name")
    case None
    then show ?thesis using assms item by (simp add: remove_item_absent)
  next
    case (Some old)
    with assms obtain a where old: "old = PInt a" "0 < a"
      using positive_lookup positive_qty_int by blast
    then have "int_value old = Some a" by simp
    from remove_item_present[OF item(2) q Some this] assms old show ?thesis
      by (simp add: item positive_delete positive_update)
  qed
qed

lemma add_positive_iff:
  assumes "positive_quantities d"
  shows "positive_quantities (stock_after (add_item d item qty logs now)) =
           add_leaves_positive d item qty"
proof (cases "valid_item item \<and> isinstance_int qty")
  case False
  then have "add_leaves_positive d item qty"
    by (cases item)
       (auto simp: add_leaves_positive_def isinstance_int_def valid_item_def
          split: option.splits)
  with False assms show ?thesis by (simp add: add_item_ignored)
next
  case True
  then obtain name q where item: "item = PStr name" "name \<noteq> []" and q: "int_value qty = Some q"
    by (auto simp: isinstance_int_def valid_item_iff)
  have "\<exists>a. dict_get d name (PInt 0) = PInt a"
  proof (cases "map_of d name")
    case None
    then show ?thesis by (simp add: dict_get_def)
  next
    case (Some v)
    with assms show ?thesis
      using positive_lookup positive_qty_int by (fastforce simp: dict_get_def)
  qed
  then obtain a where a: "dict_get d name (PInt 0) = PInt a" ..
  then have "int_value (dict_get d name (PInt 0)) = Some a" by simp
  from add_item_valid(1)[OF item(2) q this] assms a q item show ?thesis
    by (simp add: positive_update add_leaves_positive_def)
qed

section \<open>Sums, low items and the frame of a mutation\<close>

lemma add_each_sum:
  assumes "name \<noteq> []"
  shows "dict_get d name (PInt 0) = PInt a \<Longrightarrow>
         add_each_then_get d (PStr name) (map PInt qs) now = Inr (PInt (a + sum_list qs))"
proof (induction qs arbitrary: d a)
  case Nil
  then show ?case by (simp add: add_each_then_get_def get_qty_def)
next
  case (Cons q qs)
  let ?r = "add_item d (PStr name) (PInt q) None now"
  from Cons.prems have iv: "int_value (dict_get d name (PInt 0)) = Some a" by simp
  have st: "stock_after ?r = AList.update name (PInt (a + q)) d" and ra: "raised ?r = None"
    using add_item_valid[OF assms _ iv, of "PInt q" q None now] by simp_all
  have "dict_get (stock_after ?r) name (PInt 0) = PInt (a + q)"
    by (simp add: st dict_get_def AList.update_conv')
  from Cons.IH[OF this] show ?case
    by (simp add: add_each_then_get_def ra Let_def add.assoc)
qed

lemma check_low_items_inventory:
  "check_low_items (inventory_of xs) threshold =
     Inr [item. (item, qty) \<leftarrow> xs, qty < threshold]"
  by (induction xs) (auto simp: inventory_of_def py_lt_int_def)

lemma add_item_frame:
  "PStr k \<noteq> item \<Longrightarrow> map_of (stock_after (add_item d item qty logs now)) k = map_of d k"
  by (cases item)
     (auto simp: add_item_def dict_setitem_def AList.update_conv' Let_def split: sum.splits)

lemma remove_item_frame:
  "PStr k \<noteq> item \<Longrightarrow> map_of (stock_after (remove_item d item qty)) k = map_of d k"
  using remove_item_cases[of d item qty]
  by (auto simp: AList.update_conv' AList.delete_conv' split: if_splits)

lemma remove_item_keys:
  "set (keys (stock_after (remove_item d item qty))) \<subseteq> set (keys d)"
proof -
  let ?d' = "stock_after (remove_item d item qty)"
  from remove_item_cases[of d item qty]
  consider "?d' = d"
    | name where "?d' = AList.delete name d"
    | name old v where "map_of d name = Some old" "?d' = AList.update name v d"
    by blast
  then show ?thesis
  proof cases
    case 1
    then show ?thesis by simp
  next
    case 2
    then show ?thesis
      using AList.dom_delete_subset[of name d] by (simp add: keys_def)
  next
    case 3
    from 3(1) have "name \<in> fst ` set d"
      by (metis map_of_eq_None_iff option.distinct(1))
    with 3(2) show ?thesis
      by (auto simp: keys_def AList.dom_update)
  qed
qed

section \<open>The claims\<close>

text \<open>
  C1 (amended). On a stock in which every quantity is an integer above zero,
  \<open>remove_item\<close>, \<open>get_qty\<close> and \<open>check_low_items\<close> leave a stock with the same
  property, whatever their arguments. \<open>add_item\<close> leaves one exactly when the quantity
  it stores for the item, the one present (0 when absent) plus the one added, is above
  zero, or when it refuses its arguments; so it does for every quantity above zero.
\<close>

theorem operations_keep_positive_quantities:
  assumes "positive_quantities d"
  shows "positive_quantities (run d (Add_item item qty logs now)) = add_leaves_positive d item qty
       \<and> positive_quantities (run d (Remove_item item' qty'))
       \<and> positive_quantities (run d (Get_qty item''))
       \<and> positive_quantities (run d (Check_low_items threshold))"
  using assms by (simp add: add_positive_iff remove_keeps_positive)

theorem operations_keep_positive_quantities_witness:
  "positive_quantities [(''apple'', PInt 10)]
   \<and> positive_quantities
       (run [(''apple'', PInt 10)] (Add_item (PStr ''apple'') (PInt (- 3)) None ''t''))
   \<and> positive_quantities (run [(''apple'', PInt 10)] (Remove_item (PStr ''apple'') (PInt 4)))
   \<and> positive_quantities (run [(''apple'', PInt 10)] (Get_qty (PStr ''apple'')))
   \<and> positive_quantities (run [(''apple'', PInt 10)] (Check_low_items 5))"
proof -
  have h: "positive_quantities [(''apple'', PInt 10)]"
    by (simp add: positive_quantities_def)
  have "add_leaves_positive [(''apple'', PInt 10)] (PStr ''apple'') (PInt (- 3))"
    by (simp add: add_leaves_positive_def dict_get_def)
  with h operations_keep_positive_quantities [OF h, where item = "PStr ''apple''"
      and qty = "PInt (- 3)" and logs = None and now = "''t''" and item' = "PStr ''apple''"
      and qty' = "PInt 4" and item'' = "PStr ''apple''" and threshold = 5]
  show ?thesis by simp
qed

text \<open>
  C1 as stated fails for \<open>add_item\<close>: adding \<open>-2\<close> to a stock of two bananas stores the
  quantity 0.
\<close>

theorem add_item_stores_zero:
  "positive_quantities [(''banana'', PInt 2)]
   \<and> \<not> positive_quantities
         (run [(''banana'', PInt 2)] (Add_item (PStr ''banana'') (PInt (- 2)) None ''t''))"
  by (simp add: positive_quantities_def add_item_def isinstance_int_def dict_get_def
      dict_setitem_def)

text \<open>
  C2. For a non-empty item name that the stock does not hold and any list of integers,
  calling \<open>add_item\<close> with each of them in turn and then \<open>get_qty\<close> returns their sum.
\<close>

theorem add_each_then_get_is_sum:
  "name \<noteq> [] \<Longrightarrow> map_of d name = None \<Longrightarrow>
   add_each_then_get d (PStr name) (map PInt qs) now = Inr (PInt (sum_list qs))"
  using add_each_sum[of name d 0 qs now] by (simp add: dict_get_def)

theorem add_each_then_get_is_sum_witness:
  "''apple'' \<noteq> [] \<and> map_of [(''pear'', PInt 4)] ''apple'' = None
   \<and> add_each_then_get [(''pear'', PInt 4)] (PStr ''apple'') (map PInt [10, - 3, 5]) ''t''
       = Inr (PInt 12)"
  using add_each_then_get_is_sum[of "''apple''" "[(''pear'', PInt 4)]" "[10, - 3, 5]" "''t''"]
  by simp

text \<open>
  C3. For a non-empty item name that the stock holds with an integer quantity \<open>a\<close>, and
  an integer \<open>q\<close>: after \<open>remove_item\<close>, when \<open>a - q \<le> 0\<close> the name is no longer among
  the keys and \<open>get_qty\<close> returns 0; otherwise the name is still a key and \<open>get_qty\<close>
  returns \<open>a - q\<close>, which is above zero.
\<close>

theorem remove_item_deletes_or_reduces:
  assumes "name \<noteq> []" "map_of d name = Some old" "int_value old = Some a"
    and "int_value qty = Some q"
  shows "if a - q \<le> 0
         then name \<notin> set (keys (run d (Remove_item (PStr name) qty)))
            \<and> get_qty (run d (Remove_item (PStr name) qty)) (PStr name) = Inr (PInt 0)
         else name \<in> set (keys (run d (Remove_item (PStr name) qty)))
            \<and> get_qty (run d (Remove_item (PStr name) qty)) (PStr name) = Inr (PInt (a - q))
            \<and> 0 < a - q"
  using remove_item_present[OF assms(1,4,2,3)]
  by (auto simp: keys_def get_qty_def dict_get_def AList.delete_conv' AList.update_conv'
      AList.delete_keys AList.update_keys dest: map_of_eq_None_iff[THEN iffD1])

theorem remove_item_deletes_or_reduces_witness:
  "''x'' \<noteq> [] \<and> map_of [(''x'', PInt 5)] ''x'' = Some (PInt 5)
   \<and> int_value (PInt 5) = Some 5
   \<and> ''x'' \<notin> set (keys (run [(''x'', PInt 5)] (Remove_item (PStr ''x'') (PInt 5))))
   \<and> get_qty (run [(''x'', PInt 5)] (Remove_item (PStr ''x'') (PInt 5))) (PStr ''x'')
       = Inr (PInt 0)"
  using remove_item_deletes_or_reduces[of "''x''" "[(''x'', PInt 5)]" "PInt 5" 5 "PInt 5" 5]
  by simp

text \<open>
  C4. When the item is not a non-empty string, or the quantity is not an integer,
  \<open>add_item\<close> returns normally, leaves the stock and the caller's log list as they
  were and logs one warning; \<open>remove_item\<close> does the same and logs the same warning.
\<close>

theorem invalid_arguments_change_nothing:
  "\<not> valid_item item \<or> \<not> isinstance_int qty \<Longrightarrow>
    raised (add_item d item qty logs now) = None \<and>
    stock_after (add_item d item qty logs now) = d \<and>
    logs_after (add_item d item qty logs now) = logs \<and>
    map fst (emitted (add_item d item qty logs now)) = [WARNING] \<and>
    raised (remove_item d item qty) = None \<and>
    stock_after (remove_item d item qty) = d \<and>
    emitted (remove_item d item qty) = emitted (add_item d item qty logs now)"
  by (auto simp: add_item_def remove_item_def valid_item_def invalid_item_notice_def
      invalid_qty_notice_def)

theorem invalid_arguments_change_nothing_witness:
  "\<not> valid_item (PInt 123) \<and> \<not> isinstance_int (PStr ''ten'')
   \<and> stock_after (add_item [(''apple'', PInt 10)] (PInt 123) (PStr ''ten'') (Some []) ''t'')
       = [(''apple'', PInt 10)]
   \<and> stock_after (remove_item [(''apple'', PInt 10)] (PInt 123) (PStr ''ten''))
       = [(''apple'', PInt 10)]
   \<and> map fst (emitted (add_item [(''apple'', PInt 10)] (PInt 123) (PStr ''ten'') (Some []) ''t''))
       = [WARNING]"
  using invalid_arguments_change_nothing[of "PInt 123" "PStr ''ten''" "[(''apple'', PInt 10)]"
      "Some []" "''t''"]
  by (simp add: isinstance_int_def valid_item_def)

text \<open>
  C5. For a non-empty item name that the stock does not hold and an integer quantity,
  \<open>remove_item\<close> returns normally, leaves the stock as it was and logs one warning.
\<close>

theorem remove_item_absent_changes_nothing:
  assumes "name \<noteq> []" "map_of d name = None" "isinstance_int qty"
  shows "raised (remove_item d (PStr name) qty) = None
       \<and> stock_after (remove_item d (PStr name) qty) = d
       \<and> emitted (remove_item d (PStr name) qty) =
           [(WARNING, ''Attempted to remove non-existent item: %s'', [PStr name])]"
  using assms by (simp add: remove_item_def remove_item_try_absent remove_item_except_def)

theorem remove_item_absent_changes_nothing_witness:
  "''orange'' \<noteq> [] \<and> map_of [(''apple'', PInt 7)] ''orange'' = None \<and> isinstance_int (PInt 1)
   \<and> raised (remove_item [(''apple'', PInt 7)] (PStr ''orange'') (PInt 1)) = None
   \<and> stock_after (remove_item [(''apple'', PInt 7)] (PStr ''orange'') (PInt 1))
       = [(''apple'', PInt 7)]"
  using remove_item_absent_changes_nothing[of "''orange''" "[(''apple'', PInt 7)]" "PInt 1"]
  by (simp add: isinstance_int_def)

text \<open>
  C6 (the code departs from it). A stock loaded from a file can hold a quantity that
  is not a number, as \<open>{"apple": "ten"}\<close>. \<open>remove_item\<close> catches the TypeError of its
  subtraction and leaves the stock as it was; \<open>add_item\<close> has no handler, and the
  TypeError of its addition reaches the caller, as does the TypeError of the
  comparison in \<open>check_low_items\<close>.
\<close>

theorem add_item_type_error_reaches_caller:
  "raised (add_item [(''apple'', PStr ''ten'')] (PStr ''apple'') (PInt 1) None ''t'')
     = Some TypeError
   \<and> raised (remove_item [(''apple'', PStr ''ten'')] (PStr ''apple'') (PInt 1)) = None
   \<and> stock_after (remove_item [(''apple'', PStr ''ten'')] (PStr ''apple'') (PInt 1))
       = [(''apple'', PStr ''ten'')]
   \<and> check_low_items_default [(''apple'', PStr ''ten'')] = Inl TypeError"
  by (simp add: add_item_def remove_item_def remove_item_try_def remove_item_except_def
      isinstance_int_def dict_get_def dict_getitem_def py_sub_def check_low_items_default_def
      py_lt_int_def)

text \<open>So on this stock a valid call of \<open>add_item\<close> does not return normally.\<close>

theorem add_item_type_error_reaches_caller_witness:
  "raised (add_item [(''apple'', PStr ''ten'')] (PStr ''apple'') (PInt 1) None ''t'') \<noteq> None
   \<and> valid_item (PStr ''apple'') \<and> isinstance_int (PInt 1)"
  using add_item_type_error_reaches_caller
  by (simp add: valid_item_def isinstance_int_def)

text \<open>
  C7. On an inventory of item names with integer quantities and an integer threshold,
  \<open>check_low_items\<close> returns the items whose quantity is below the threshold, in the
  order of the inventory, and leaves the inventory as it was; with the default
  threshold 5 on \<open>{"apple": 10, "banana": 3}\<close> it returns \<open>["banana"]\<close>.
\<close>

theorem check_low_items_exact:
  "check_low_items (inventory_of xs) threshold =
     Inr [item. (item, qty) \<leftarrow> xs, qty < threshold]
   \<and> run (inventory_of xs) (Check_low_items threshold) = inventory_of xs
   \<and> check_low_items_default (inventory_of [(''apple'', 10), (''banana'', 3)])
       = Inr [''banana'']"
  by (simp add: check_low_items_inventory check_low_items_default_def)

text \<open>
  C8 (amended). For a hashable item, \<open>get_qty\<close> returns the quantity stored under the
  item when the stock holds it and 0 when it does not, and leaves the stock as it was.
\<close>

theorem get_qty_hashable:
  assumes "hashable item"
  shows "(\<forall>name v. item = PStr name \<and> map_of d name = Some v \<longrightarrow> get_qty d item = Inr v)
       \<and> ((\<forall>name. item = PStr name \<longrightarrow> map_of d name = None) \<longrightarrow> get_qty d item = Inr (PInt 0))
       \<and> run d (Get_qty item) = d"
  using assms by (cases item) (auto simp: get_qty_def dict_get_def)

theorem get_qty_hashable_witness:
  "hashable (PStr ''apple'')
   \<and> map_of [(''apple'', PInt 7)] ''apple'' = Some (PInt 7)
   \<and> get_qty [(''apple'', PInt 7)] (PStr ''apple'') = Inr (PInt 7)
   \<and> get_qty [(''apple'', PInt 7)] (PInt 3) = Inr (PInt 0)"
proof -
  have "get_qty [(''apple'', PInt 7)] (PStr ''apple'') = Inr (PInt 7)"
    using get_qty_hashable[of "PStr ''apple''" "[(''apple'', PInt 7)]"] by simp
  moreover have "get_qty [(''apple'', PInt 7)] (PInt 3) = Inr (PInt 0)"
    using get_qty_hashable[of "PInt 3" "[(''apple'', PInt 7)]"] by simp
  ultimately show ?thesis by simp
qed

text \<open>
  C8 as stated fails for an unhashable item: \<open>get_qty\<close> with a list as the item raises
  TypeError.
\<close>

theorem get_qty_unhashable_raises:
  "get_qty [(''apple'', PInt 10)] (PList []) = Inl TypeError"
  by (simp add: get_qty_def)

text \<open>
  C9 (amended). For an inventory of item names with integer quantities and a path that
  \<open>save_data\<close> can open for writing, \<open>load_data\<close> after \<open>save_data\<close> on that path
  returns an equal dictionary.
\<close>

theorem save_then_load_roundtrip:
  "open_write fs file = Inr () \<Longrightarrow>
   save_then_load fs (inventory_of xs) file = Inr (PDict (inventory_of xs))"
  by (simp add: save_then_load_def save_data_def load_data_def open_read_def json_load_def)

theorem save_then_load_roundtrip_witness:
  "open_write Map.empty ''inventory.json'' = Inr ()
   \<and> save_then_load Map.empty (inventory_of [(''apple'', 10)]) ''inventory.json''
       = Inr (PDict [(''apple'', PInt 10)])"
  using save_then_load_roundtrip[of Map.empty "''inventory.json''" "[(''apple'', 10)]"]
  by (simp add: inventory_of_def open_write_def)

text \<open>
  C9 as stated fails on a path that cannot be opened: \<open>save_data\<close> logs the error and
  writes nothing, and \<open>load_data\<close> returns the empty dictionary.
\<close>

theorem save_then_load_unreachable:
  "save_then_load [''reports/inventory.json'' \<mapsto> Unreachable]
     (inventory_of [(''apple'', 10)]) ''reports/inventory.json''
     = Inr (PDict [])
   \<and> save_then_load [''reports/inventory.json'' \<mapsto> Unreachable]
       (inventory_of [(''apple'', 10)]) ''reports/inventory.json''
     \<noteq> Inr (PDict (inventory_of [(''apple'', 10)]))"
  by (simp add: save_then_load_def save_data_def load_data_def open_read_def open_write_def
      inventory_of_def)

text \<open>
  C10. \<open>add_item\<close> and \<open>remove_item\<close> leave the entry of every key other than the item,
  present or not, as it was, and \<open>remove_item\<close> adds no key.
\<close>

theorem mutations_touch_one_item:
  "(PStr k \<noteq> item \<longrightarrow>
      map_of (run d (Add_item item qty logs now)) k = map_of d k
    \<and> map_of (run d (Remove_item item qty)) k = map_of d k)
   \<and> set (keys (run d (Remove_item item qty))) \<subseteq> set (keys d)"
  by (simp add: add_item_frame remove_item_frame remove_item_keys)

theorem mutations_touch_one_item_witness:
  "PStr ''pear'' \<noteq> PStr ''apple''
   \<and> map_of (run [(''apple'', PInt 5), (''pear'', PInt 2)]
        (Add_item (PStr ''apple'') (PInt 3) None ''t'')) ''pear'' = Some (PInt 2)
   \<and> map_of (run [(''apple'', PInt 5), (''pear'', PInt 2)]
        (Remove_item (PStr ''apple'') (PInt 3))) ''pear'' = Some (PInt 2)"
  using mutations_touch_one_item[of "''pear''" "PStr ''apple''"
      "[(''apple'', PInt 5), (''pear'', PInt 2)]" "PInt 3" None "''t''"]
  by simp

end
